theory Spec2Isabelle
  imports Complex_Main "HOL-Library.Word" "HOL-Library.Monad_Syntax"
begin

section \<open>JavaScript values used by the worker\<close>

text \<open>
  A JavaScript string is a sequence of UTF-16 code units; \<open>substring\<close>, \<open>length\<close> and the
  template literals of \<^verbatim>\<open>src/index.ts\<close> count and concatenate code units. \<open>lit\<close> embeds an
  ASCII literal of the source.
\<close>

type_synonym js_string = "16 word list"

definition lit :: "string \<Rightarrow> js_string" where
  "lit s = map of_char s"

text \<open>Decimal text of an integer, as a template literal prints \<^verbatim>\<open>Date.now()\<close> or an index.\<close>

fun nat_text :: "nat \<Rightarrow> js_string" where
  "nat_text n =
     (if n < 10 then [of_nat (48 + n)]
      else nat_text (n div 10) @ [of_nat (48 + n mod 10)])"

declare nat_text.simps [simp del]

definition int_text :: "int \<Rightarrow> js_string" where
  "int_text i = (if i < 0 then lit ''-'' @ nat_text (nat (- i)) else nat_text (nat i))"

fun join :: "js_string \<Rightarrow> js_string list \<Rightarrow> js_string" where
  "join sep [] = []"
| "join sep [x] = x"
| "join sep (x # y # ys) = x @ sep @ join sep (y # ys)"

text \<open>
  Values of type \<^verbatim>\<open>any\<close> (the parsed gist, the configuration document, the payload of
  Workers AI) are JSON values. An object is the list of its own enumerable properties in
  enumeration order, with pairwise distinct keys; \<open>undefined\<close> is \<open>None\<close> of \<open>json option\<close>.
  A number is a real: the worker passes numbers on and tests them for zero, and computes
  with none of them.
\<close>

datatype json =
    JNull
  | JBool bool
  | JNum real
  | JStr js_string
  | JArr "json list"
  | JObj "(js_string \<times> json) list"

text \<open>ToBoolean: what \<^verbatim>\<open>if (x)\<close>, \<^verbatim>\<open>!x\<close> and \<^verbatim>\<open>x || y\<close> test.\<close>

fun truthy :: "json \<Rightarrow> bool" where
  "truthy JNull = False"
| "truthy (JBool b) = b"
| "truthy (JNum r) = (r \<noteq> 0)"
| "truthy (JStr s) = (s \<noteq> [])"
| "truthy (JArr xs) = True"
| "truthy (JObj kvs) = True"

text \<open>
  Reading a property \<^verbatim>\<open>x.name\<close>, for the names the source reads (\<open>files\<close>, \<open>content\<close>,
  \<open>response\<close>; none is a built-in property of arrays, strings, numbers or booleans).
  The outer \<open>None\<close> is the TypeError of reading a property of \<open>undefined\<close> or \<open>null\<close>; the
  inner \<open>None\<close> is the value \<open>undefined\<close>.
\<close>

fun get_prop :: "json option \<Rightarrow> js_string \<Rightarrow> json option option" where
  "get_prop None k = None"
| "get_prop (Some JNull) k = None"
| "get_prop (Some (JObj kvs)) k = Some (map_of kvs k)"
| "get_prop (Some v) k = Some None"

text \<open>\<^verbatim>\<open>Object.values(x)\<close>; \<open>None\<close> is the TypeError on \<open>undefined\<close> and \<open>null\<close>.\<close>

fun Object_values :: "json option \<Rightarrow> json list option" where
  "Object_values None = None"
| "Object_values (Some JNull) = None"
| "Object_values (Some (JObj kvs)) = Some (map snd kvs)"
| "Object_values (Some (JArr xs)) = Some xs"
| "Object_values (Some (JStr s)) = Some (map (\<lambda>c. JStr [c]) s)"
| "Object_values (Some v) = Some []"

text \<open>\<^verbatim>\<open>xs[0]\<close> on an array: \<open>undefined\<close> when the array is empty.\<close>

fun first :: "json list \<Rightarrow> json option" where
  "first [] = None"
| "first (x # xs) = Some x"

text \<open>
  ToString, applied by \<^verbatim>\<open>JSON.parse\<close> to its argument. The text of a number is the
  language's (shortest round-trip decimal of a double) and is taken as the parameter \<open>nt\<close>.
\<close>

fun ToString :: "(real \<Rightarrow> js_string) \<Rightarrow> json option \<Rightarrow> js_string" where
  "ToString nt None = lit ''undefined''"
| "ToString nt (Some JNull) = lit ''null''"
| "ToString nt (Some (JBool b)) = (if b then lit ''true'' else lit ''false'')"
| "ToString nt (Some (JNum r)) = nt r"
| "ToString nt (Some (JStr s)) = s"
| "ToString nt (Some (JArr xs)) =
     join (lit '','') (map (\<lambda>x. if x = JNull then [] else ToString nt (Some x)) xs)"
| "ToString nt (Some (JObj kvs)) = lit ''[object Object]''"

text \<open>\<^verbatim>\<open>JSON.stringify\<close> without indentation: QuoteJSONString and SerializeJSONProperty.\<close>

definition hex_digit :: "nat \<Rightarrow> 16 word" where
  "hex_digit n = (if n < 10 then of_nat (48 + n) else of_nat (87 + n))"

definition unicode_escape :: "16 word \<Rightarrow> js_string" where
  "unicode_escape c =
     [0x5C, 0x75] @ map (\<lambda>i. hex_digit (unat (drop_bit i c) mod 16)) [12, 8, 4, 0]"

definition is_lead :: "16 word \<Rightarrow> bool" where
  "is_lead c = (0xD800 \<le> c \<and> c \<le> 0xDBFF)"

definition is_trail :: "16 word \<Rightarrow> bool" where
  "is_trail c = (0xDC00 \<le> c \<and> c \<le> 0xDFFF)"

definition escape_unit :: "16 word \<Rightarrow> js_string" where
  "escape_unit c =
     (if c = 0x08 then [0x5C, 0x62]
      else if c = 0x09 then [0x5C, 0x74]
      else if c = 0x0A then [0x5C, 0x6E]
      else if c = 0x0C then [0x5C, 0x66]
      else if c = 0x0D then [0x5C, 0x72]
      else if c = 0x22 then [0x5C, 0x22]
      else if c = 0x5C then [0x5C, 0x5C]
      else if c < 0x20 \<or> is_lead c \<or> is_trail c then unicode_escape c
      else [c])"

fun quote_units :: "js_string \<Rightarrow> js_string" where
  "quote_units [] = []"
| "quote_units [c] = escape_unit c"
| "quote_units (c # d # cs) =
     (if is_lead c \<and> is_trail d then c # d # quote_units cs
      else escape_unit c @ quote_units (d # cs))"

definition QuoteJSONString :: "js_string \<Rightarrow> js_string" where
  "QuoteJSONString s = [0x22] @ quote_units s @ [0x22]"

fun JSON_stringify :: "(real \<Rightarrow> js_string) \<Rightarrow> json \<Rightarrow> js_string" where
  "JSON_stringify nt JNull = lit ''null''"
| "JSON_stringify nt (JBool b) = (if b then lit ''true'' else lit ''false'')"
| "JSON_stringify nt (JNum r) = nt r"
| "JSON_stringify nt (JStr s) = QuoteJSONString s"
| "JSON_stringify nt (JArr xs) =
     lit ''['' @ join (lit '','') (map (JSON_stringify nt) xs) @ lit '']''"
| "JSON_stringify nt (JObj kvs) =
     lit ''{'' @
     join (lit '','') (map (\<lambda>(k, v). QuoteJSONString k @ lit '':'' @ JSON_stringify nt v) kvs) @
     lit ''}''"

text \<open>
  The own enumerable properties that the spread \<^verbatim>\<open>...config\<close> copies into an object
  literal: the properties of an object, the indexed elements of an array, the indexed code
  units of a string, nothing for a number, a boolean or \<open>null\<close>.
\<close>

fun own_props :: "json \<Rightarrow> (js_string \<times> json) list" where
  "own_props (JObj kvs) = kvs"
| "own_props (JArr xs) = zip (map nat_text [0..<length xs]) xs"
| "own_props (JStr s) = zip (map nat_text [0..<length s]) (map (\<lambda>c. JStr [c]) s)"
| "own_props v = []"

section \<open>The in-memory cache (lines 8-23)\<close>

record cache_item =
  item_value :: json
  item_expiry :: int

type_synonym cache = "js_string \<rightharpoonup> cache_item"

text \<open>
  \<open>getCached\<close> and \<open>setCache\<close> take the reading of \<^verbatim>\<open>Date.now()\<close> and the map, and return
  the map as the call leaves it. The declared type of a cached value is \<open>string\<close>; the value
  stored is whatever line 128 computed from the \<^verbatim>\<open>any\<close>-typed payload.
\<close>

definition getCached :: "int \<Rightarrow> js_string \<Rightarrow> cache \<Rightarrow> json option \<times> cache" where
  "getCached now key c =
     (case c key of
        None \<Rightarrow> (None, c)
      | Some item \<Rightarrow>
          if now > item_expiry item then (None, c(key := None))
          else (Some (item_value item), c))"

definition setCache :: "int \<Rightarrow> js_string \<Rightarrow> json \<Rightarrow> int \<Rightarrow> cache \<Rightarrow> cache" where
  "setCache now key v ttl c = c(key \<mapsto> \<lparr>item_value = v, item_expiry = now + ttl * 1000\<rparr>)"

section \<open>Collaborators of the worker\<close>

text \<open>A thrown value, of which the handlers read only \<^verbatim>\<open>error.message\<close>.\<close>

datatype thrown = Thrown (message: "js_string option")

text \<open>
  The global \<^verbatim>\<open>fetch\<close> either rejects or resolves to a response with a status; the body is
  what \<^verbatim>\<open>response.json()\<close> resolves to, \<open>None\<close> when it rejects.
\<close>

datatype fetch_result = NetworkError | HttpResponse nat "json option"

text \<open>
  What the language and the platform provide: the global \<open>fetch\<close> as a function of the URL
  and the Authorization header, \<^verbatim>\<open>JSON.parse\<close> (\<open>None\<close> is its SyntaxError), the text of a
  number, and the TypeError that the engine throws when \<open>null\<close> is destructured.
\<close>

record runtime =
  fetch :: "js_string \<Rightarrow> js_string \<Rightarrow> fetch_result"
  JSON_parse :: "js_string \<Rightarrow> json option"
  Number_toString :: "real \<Rightarrow> js_string"
  TypeError_null :: thrown

text \<open>The record written to the KV namespace on line 138, before serialisation.\<close>

record workflow_data =
  data_prompt :: js_string
  data_result :: json
  data_model :: js_string
  data_timestamp :: int

text \<open>
  The bindings of \<^verbatim>\<open>Env\<close> that the workflow endpoint reads. \<open>AI\<close> is \<^verbatim>\<open>env.AI.run\<close>, a
  function of the model name and the parameter object: it throws, or resolves to a
  response object, given by its properties. \<open>CONFIG\<close> is \<^verbatim>\<open>env.CONFIG.put\<close> when the
  namespace is bound, a function of the key, the record and \<open>expirationTtl\<close>: \<open>Some e\<close> when
  the write throws \<open>e\<close>. A secret that is not set is \<open>None\<close>.
\<close>

record env =
  AI :: "js_string \<Rightarrow> (js_string \<rightharpoonup> json) \<Rightarrow> thrown + (js_string \<times> json) list"
  CONFIG :: "(js_string \<Rightarrow> workflow_data \<Rightarrow> nat \<Rightarrow> thrown option) option"
  GITHUB_TOKEN :: "js_string option"
  GIST_ID :: "js_string option"

text \<open>
  \<^verbatim>\<open>WorkflowRequest\<close>, the declared type of the parsed body: a property that the body
  lacks is \<open>None\<close>, the others have the types of the interface.
\<close>

record workflow_request =
  prompt :: "js_string option"
  model :: "js_string option"
  temperature :: "real option"
  max_tokens :: "real option"

text \<open>
  What \<^verbatim>\<open>request.json()\<close> resolves to (line 83): \<open>null\<close>, which the destructuring of lines
  84-89 cannot read, or a value given by the four properties that the destructuring reads
  (all four are \<open>None\<close> for a number, a string, a boolean or an array).
\<close>

datatype parsed_body = NullBody | Body workflow_request

datatype source = Cache | Ai

record workflow_response =
  result :: json
  source :: source
  response_model :: js_string
  timestamp :: int

text \<open>
  The JSON documents the endpoint answers with, before serialisation: an error document
  (with the timestamp of line 161 when it has one) or a \<^verbatim>\<open>WorkflowResponse\<close>. The CORS
  headers are the same on every response and are left out.
\<close>

datatype body = ErrorJson js_string "int option" | WorkflowJson workflow_response

record http_response =
  status :: nat
  body :: body

text \<open>The calls a request makes to its collaborators, in program order.\<close>

datatype event =
    GistFetch js_string js_string
  | AIRun js_string "js_string \<rightharpoonup> json"
  | KVPut js_string workflow_data nat
  | ConsoleError js_string

text \<open>
  The readings of the clock, one for each place that reads it: \<open>getCached\<close> (line 14),
  \<open>setCache\<close> (line 22), the KV key (line 137), the KV record (line 138) and the timestamp
  of the response that is returned (lines 107, 150, 161).
\<close>

record clock =
  now_getCached :: int
  now_setCache :: int
  now_kv_key :: int
  now_kv_record :: int
  now_response :: int

record outcome =
  response :: http_response
  cache_after :: cache
  trace :: "event list"

section \<open>getGistConfig (lines 26-48)\<close>

text \<open>Lines 41-43, inside the \<open>try\<close>: \<open>None\<close> when any of them throws.\<close>

definition gist_document :: "runtime \<Rightarrow> json option \<Rightarrow> json option" where
  "gist_document rt parsed = do {
     gist \<leftarrow> parsed;
     files \<leftarrow> get_prop (Some gist) (lit ''files'');
     vals \<leftarrow> Object_values files;
     content \<leftarrow> get_prop (first vals) (lit ''content'');
     JSON_parse rt (ToString (Number_toString rt) content)
   }"

definition getGistConfig :: "runtime \<Rightarrow> js_string \<Rightarrow> js_string \<Rightarrow> json \<times> event list" where
  "getGistConfig rt gistId token =
     (let url = lit ''https://api.github.com/gists/'' @ gistId;
          auth = lit ''Bearer '' @ token
      in case fetch rt url auth of
           NetworkError \<Rightarrow>
             (JObj [], [GistFetch url auth, ConsoleError (lit ''Error fetching gist config:'')])
         | HttpResponse st parsed \<Rightarrow>
             if \<not> (200 \<le> st \<and> st \<le> 299)
             then (JObj [], [GistFetch url auth, ConsoleError (lit ''Failed to fetch gist:'')])
             else (case gist_document rt parsed of
                     None \<Rightarrow>
                       (JObj [],
                        [GistFetch url auth, ConsoleError (lit ''Error fetching gist config:'')])
                   | Some config \<Rightarrow> (config, [GistFetch url auth])))"

section \<open>The workflow endpoint (lines 81-167)\<close>

text \<open>Line 99.\<close>

definition cacheKey :: "js_string \<Rightarrow> js_string \<Rightarrow> js_string" where
  "cacheKey m p = lit ''ai:'' @ m @ lit '':'' @ take 50 p"

text \<open>
  Lines 121-126, the object literal \<^verbatim>\<open>{ prompt, temperature, max_tokens, ...config }\<close>:
  the three properties are defined first, then every own property of \<open>config\<close> is copied in
  order, replacing a property of the same name.
\<close>

definition merge_params :: "js_string \<Rightarrow> real \<Rightarrow> real \<Rightarrow> json \<Rightarrow> (js_string \<rightharpoonup> json)" where
  "merge_params p t mt config =
     fold (\<lambda>(k, v) ps. ps(k \<mapsto> v)) (own_props config)
       [lit ''prompt'' \<mapsto> JStr p, lit ''temperature'' \<mapsto> JNum t, lit ''max_tokens'' \<mapsto> JNum mt]"

text \<open>Line 128: \<^verbatim>\<open>aiResponse.response || JSON.stringify(aiResponse)\<close>.\<close>

definition extract_result :: "runtime \<Rightarrow> (js_string \<times> json) list \<Rightarrow> json" where
  "extract_result rt aiResponse =
     (case map_of aiResponse (lit ''response'') of
        Some v \<Rightarrow>
          if truthy v then v else JStr (JSON_stringify (Number_toString rt) (JObj aiResponse))
      | None \<Rightarrow> JStr (JSON_stringify (Number_toString rt) (JObj aiResponse)))"

text \<open>Lines 133-144: the write to the KV namespace, inside its own \<open>try\<close>.\<close>

definition store_kv :: "env \<Rightarrow> clock \<Rightarrow> js_string \<Rightarrow> json \<Rightarrow> js_string \<Rightarrow> event list" where
  "store_kv e clk p r m =
     (case CONFIG e of
        None \<Rightarrow> []
      | Some put \<Rightarrow>
          (let key = lit ''workflow:'' @ int_text (now_kv_key clk);
               d = \<lparr>data_prompt = p, data_result = r, data_model = m,
                    data_timestamp = now_kv_record clk\<rparr>
           in case put key d 86400 of
                None \<Rightarrow> [KVPut key d 86400]
              | Some err \<Rightarrow> [KVPut key d 86400, ConsoleError (lit ''KV storage error:'')]))"

text \<open>Lines 157-166: the \<open>catch\<close> of the endpoint.\<close>

definition error_response :: "clock \<Rightarrow> thrown \<Rightarrow> http_response" where
  "error_response clk err =
     \<lparr>status = 500,
      body = ErrorJson
        (case message err of
           None \<Rightarrow> lit ''Internal server error''
         | Some msg \<Rightarrow> if msg = [] then lit ''Internal server error'' else msg)
        (Some (now_response clk))\<rparr>"

text \<open>
  Lines 114-118: \<^verbatim>\<open>env.GIST_ID && env.GITHUB_TOKEN\<close> holds when both are set and not empty;
  otherwise \<open>config\<close> stays the empty object literal.
\<close>

definition load_config :: "runtime \<Rightarrow> env \<Rightarrow> json \<times> event list" where
  "load_config rt e =
     (case (GIST_ID e, GITHUB_TOKEN e) of
        (Some gistId, Some token) \<Rightarrow>
          if gistId \<noteq> [] \<and> token \<noteq> [] then getGistConfig rt gistId token
          else (JObj [], [])
      | _ \<Rightarrow> (JObj [], []))"

text \<open>Lines 114-155: what the endpoint does once the cache has not answered.\<close>

definition cache_miss ::
  "runtime \<Rightarrow> env \<Rightarrow> clock \<Rightarrow> js_string \<Rightarrow> js_string \<Rightarrow> real \<Rightarrow> real \<Rightarrow> cache \<Rightarrow> outcome" where
  "cache_miss rt e clk p m t mt c =
     (let (config, loaded) = load_config rt e;
          params = merge_params p t mt config
      in case AI e m params of
           Inl err \<Rightarrow>
             \<lparr>response = error_response clk err,
              cache_after = c,
              trace = loaded @ [AIRun m params, ConsoleError (lit ''Workflow error:'')]\<rparr>
         | Inr aiResponse \<Rightarrow>
             (let r = extract_result rt aiResponse
              in \<lparr>response =
                    \<lparr>status = 200,
                     body = WorkflowJson
                       \<lparr>result = r, source = Ai, response_model = m,
                        timestamp = now_response clk\<rparr>\<rparr>,
                  cache_after = setCache (now_setCache clk) (cacheKey m p) r 3600 c,
                  trace = loaded @ [AIRun m params] @ store_kv e clk p r m\<rparr>))"

text \<open>
  The branch of the exported \<open>fetch\<close> handler for \<^verbatim>\<open>POST /api/workflow\<close>, lines 82-112 and
  the \<open>catch\<close>: the request is what \<^verbatim>\<open>request.json()\<close> resolves to, or the value it throws
  (on an empty body, or one that is not JSON). A body that is \<open>null\<close> makes the destructuring
  of lines 84-89 throw before line 91 tests the prompt, and the \<open>catch\<close> answers.
  The result is the response, the cache as the request leaves it, and the calls it made.
\<close>

definition workflow ::
  "runtime \<Rightarrow> env \<Rightarrow> clock \<Rightarrow> thrown + parsed_body \<Rightarrow> cache \<Rightarrow> outcome" where
  "workflow rt e clk request c =
     (case request of
        Inl err \<Rightarrow>
          \<lparr>response = error_response clk err, cache_after = c,
           trace = [ConsoleError (lit ''Workflow error:'')]\<rparr>
      | Inr NullBody \<Rightarrow>
          \<lparr>response = error_response clk (TypeError_null rt), cache_after = c,
           trace = [ConsoleError (lit ''Workflow error:'')]\<rparr>
      | Inr (Body req) \<Rightarrow>
          (let m = (case model req of None \<Rightarrow> lit ''@cf/meta/llama-2-7b-chat-int8'' | Some x \<Rightarrow> x);
               t = (case temperature req of None \<Rightarrow> 0.7 | Some x \<Rightarrow> x);
               mt = (case max_tokens req of None \<Rightarrow> 2048 | Some x \<Rightarrow> x)
           in case prompt req of
                None \<Rightarrow>
                  \<lparr>response = \<lparr>status = 400, body = ErrorJson (lit ''Prompt is required'') None\<rparr>,
                   cache_after = c, trace = []\<rparr>
              | Some p \<Rightarrow>
                  if p = [] then
                    \<lparr>response =
                       \<lparr>status = 400, body = ErrorJson (lit ''Prompt is required'') None\<rparr>,
                     cache_after = c, trace = []\<rparr>
                  else
                    (case getCached (now_getCached clk) (cacheKey m p) c of
                       (cached, c1) \<Rightarrow>
                         (case cached of
                            None \<Rightarrow> cache_miss rt e clk p m t mt c1
                          | Some v \<Rightarrow>
                              if truthy v then
                                \<lparr>response =
                                   \<lparr>status = 200,
                                    body = WorkflowJson
                                      \<lparr>result = v, source = Cache, response_model = m,
                                       timestamp = now_response clk\<rparr>\<rparr>,
                                 cache_after = c1, trace = []\<rparr>
                              else cache_miss rt e clk p m t mt c1))))"

text \<open>
  The caches the worker can hold: the map is created empty (line 9) and only the workflow
  endpoint touches it.
\<close>

inductive reachable :: "cache \<Rightarrow> bool" where
  initial: "reachable Map.empty"
| step: "reachable c \<Longrightarrow> reachable (cache_after (workflow rt e clk request c))"

text \<open>The calls of one kind in a trace.\<close>

fun ai_calls :: "event list \<Rightarrow> (js_string \<times> (js_string \<rightharpoonup> json)) list" where
  "ai_calls [] = []"
| "ai_calls (AIRun m ps # es) = (m, ps) # ai_calls es"
| "ai_calls (ev # es) = ai_calls es"

fun gist_calls :: "event list \<Rightarrow> (js_string \<times> js_string) list" where
  "gist_calls [] = []"
| "gist_calls (GistFetch url auth # es) = (url, auth) # gist_calls es"
| "gist_calls (ev # es) = gist_calls es"

fun kv_calls :: "event list \<Rightarrow> (js_string \<times> workflow_data) list" where
  "kv_calls [] = []"
| "kv_calls (KVPut k d ttl # es) = (k, d) # kv_calls es"
| "kv_calls (ev # es) = kv_calls es"

text \<open>The value of one parameter in each run of the model.\<close>

definition sent_param :: "event list \<Rightarrow> js_string \<Rightarrow> json option list" where
  "sent_param tr k = map (\<lambda>(m, ps). ps k) (ai_calls tr)"

section \<open>Example inputs\<close>

text \<open>
  A runtime whose gist holds the document \<^verbatim>\<open>{"temperature":0.9}\<close>, an environment whose
  model answers \<^verbatim>\<open>{response: "X is a letter"}\<close>, a request for the model \<open>m1\<close> with the
  prompt \<open>Explain X\<close> and the temperature 0.2, and the cache that this request leaves when
  the worker starts with it. The example number text is exact on the integers.
\<close>

definition number_text_ex :: "real \<Rightarrow> js_string" where
  "number_text_ex r = int_text \<lfloor>r\<rfloor>"

definition content_ex :: js_string where
  "content_ex = lit ''{'' @ [0x22] @ lit ''temperature'' @ [0x22] @ lit '':0.9}''"

definition config_ex :: json where
  "config_ex = JObj [(lit ''temperature'', JNum 0.9)]"

definition gist_ex :: json where
  "gist_ex =
     JObj [(lit ''files'',
            JObj [(lit ''workflow-config.json'', JObj [(lit ''content'', JStr content_ex)])])]"

definition rt_ex :: runtime where
  "rt_ex =
     \<lparr>fetch = (\<lambda>url auth. HttpResponse 200 (Some gist_ex)),
      JSON_parse = (\<lambda>s. if s = content_ex then Some config_ex else None),
      Number_toString = number_text_ex,
      TypeError_null =
        Thrown (Some (lit ''Cannot destructure property '' @ [0x27] @ lit ''prompt'' @ [0x27] @
                      lit '' of '' @ [0x27] @ lit ''body'' @ [0x27] @ lit '' as it is null.''))\<rparr>"

definition rt_down :: runtime where
  "rt_down = rt_ex\<lparr>fetch := (\<lambda>url auth. NetworkError)\<rparr>"

definition answer_ex :: "(js_string \<times> json) list" where
  "answer_ex = [(lit ''response'', JStr (lit ''X is a letter''))]"

definition env_ex :: env where
  "env_ex =
     \<lparr>AI = (\<lambda>m ps. Inr answer_ex),
      CONFIG = Some (\<lambda>k d ttl. None),
      GITHUB_TOKEN = Some (lit ''token''),
      GIST_ID = Some (lit ''abc123'')\<rparr>"

definition clk_ex :: clock where
  "clk_ex =
     \<lparr>now_getCached = 1000, now_setCache = 1001, now_kv_key = 1002, now_kv_record = 1002,
      now_response = 1003\<rparr>"

definition req_ex :: workflow_request where
  "req_ex =
     \<lparr>prompt = Some (lit ''Explain X''), model = Some (lit ''m1''), temperature = Some 0.2,
      max_tokens = None\<rparr>"

definition key_ex :: js_string where
  "key_ex = cacheKey (lit ''m1'') (lit ''Explain X'')"

definition cache_warm :: cache where
  "cache_warm = cache_after (workflow rt_ex env_ex clk_ex (Inr (Body req_ex)) Map.empty)"

definition clk_later :: clock where
  "clk_later =
     \<lparr>now_getCached = 5000, now_setCache = 5001, now_kv_key = 5002, now_kv_record = 5002,
      now_response = 5003\<rparr>"

definition clk_late :: clock where
  "clk_late =
     \<lparr>now_getCached = 3601002, now_setCache = 3601003, now_kv_key = 3601004,
      now_kv_record = 3601004, now_response = 3601005\<rparr>"

definition req_empty :: workflow_request where
  "req_empty = \<lparr>prompt = Some [], model = Some (lit ''m1''), temperature = Some 1.5,
      max_tokens = Some 10\<rparr>"

definition env_ai_down :: env where
  "env_ai_down = env_ex\<lparr>AI := (\<lambda>m ps. Inl (Thrown (Some (lit ''model unavailable''))))\<rparr>"

definition env_unbound :: env where
  "env_unbound = env_ex\<lparr>GIST_ID := None\<rparr>"

definition env_kv_down :: env where
  "env_kv_down = env_ex\<lparr>CONFIG := Some (\<lambda>k d ttl. Some (Thrown (Some (lit ''KV unavailable''))))\<rparr>"

definition answer_blank :: "(js_string \<times> json) list" where
  "answer_blank = [(lit ''response'', JStr [])]"

definition env_blank :: env where
  "env_blank = env_ex\<lparr>AI := (\<lambda>m ps. Inr answer_blank)\<rparr>"

section \<open>Properties\<close>

subsection \<open>The merged parameters and the extracted result\<close>

lemma fold_upd_map_of:
  "fold (\<lambda>(k, v) ps. ps(k \<mapsto> v)) kvs base = base ++ map_of (rev kvs)"
proof (induction kvs arbitrary: base)
  case Nil
  show ?case by simp
next
  case (Cons kv kvs)
  obtain k v where kv: "kv = (k, v)" by (cases kv)
  have "fold (\<lambda>(k, v) ps. ps(k \<mapsto> v)) (kv # kvs) base =
          fold (\<lambda>(k, v) ps. ps(k \<mapsto> v)) kvs (base(k \<mapsto> v))"
    by (simp add: kv)
  also have "\<dots> = base(k \<mapsto> v) ++ map_of (rev kvs)"
    by (rule Cons.IH)
  also have "\<dots> = base ++ map_of (rev (kv # kvs))"
    by (simp add: kv map_add_def fun_eq_iff split: option.splits)
  finally show ?case .
qed

lemma merge_params_lookup:
  "merge_params p t mt config k =
     (case map_of (rev (own_props config)) k of
        Some v \<Rightarrow> Some v
      | None \<Rightarrow> [lit ''prompt'' \<mapsto> JStr p, lit ''temperature'' \<mapsto> JNum t,
                 lit ''max_tokens'' \<mapsto> JNum mt] k)"
  unfolding merge_params_def fold_upd_map_of
  by (simp add: map_add_def split: option.splits)

lemma merge_params_empty:
  "merge_params p t mt (JObj []) =
     [lit ''prompt'' \<mapsto> JStr p, lit ''temperature'' \<mapsto> JNum t, lit ''max_tokens'' \<mapsto> JNum mt]"
  by (simp add: merge_params_def)

lemma stringify_object_nonempty: "JSON_stringify nt (JObj kvs) \<noteq> []"
  by (simp add: lit_def)

lemma truthy_extract_result: "truthy (extract_result rt a)"
  by (simp add: extract_result_def stringify_object_nonempty del: JSON_stringify.simps
      split: option.splits)

lemma getCached_cases:
  "getCached now key c = (r, c1) \<Longrightarrow>
     (c1 = c \<or> c1 = c(key := None)) \<and> (\<forall>v. r = Some v \<longrightarrow> (\<exists>item. c key = Some item \<and> item_value item = v))"
  by (auto simp: getCached_def split: option.splits if_splits)

lemma workflow_miss:
  assumes "prompt req = Some p" "p \<noteq> []"
    and "m = (case model req of None \<Rightarrow> lit ''@cf/meta/llama-2-7b-chat-int8'' | Some x \<Rightarrow> x)"
    and "getCached (now_getCached clk) (cacheKey m p) c = (None, c1)"
  shows "workflow rt e clk (Inr (Body req)) c =
           cache_miss rt e clk p m
             (case temperature req of None \<Rightarrow> 0.7 | Some x \<Rightarrow> x)
             (case max_tokens req of None \<Rightarrow> 2048 | Some x \<Rightarrow> x) c1"
  using assms by (simp add: workflow_def Let_def)

subsection \<open>The calls of a request\<close>

lemma ai_calls_append: "ai_calls (xs @ ys) = ai_calls xs @ ai_calls ys"
  by (induction xs rule: ai_calls.induct) simp_all

lemma gist_calls_append: "gist_calls (xs @ ys) = gist_calls xs @ gist_calls ys"
  by (induction xs rule: gist_calls.induct) simp_all

lemma kv_calls_append: "kv_calls (xs @ ys) = kv_calls xs @ kv_calls ys"
  by (induction xs rule: kv_calls.induct) simp_all

lemma getGistConfig_calls:
  "ai_calls (snd (getGistConfig rt g tok)) = []"
  "kv_calls (snd (getGistConfig rt g tok)) = []"
  "gist_calls (snd (getGistConfig rt g tok)) =
     [(lit ''https://api.github.com/gists/'' @ g, lit ''Bearer '' @ tok)]"
  by (simp_all add: getGistConfig_def Let_def split: fetch_result.splits option.splits)

lemma load_config_calls:
  "ai_calls (snd (load_config rt e)) = []"
  "kv_calls (snd (load_config rt e)) = []"
  by (simp_all add: load_config_def getGistConfig_calls split: option.splits)

lemma store_kv_calls:
  "ai_calls (store_kv e clk p r m) = []"
  "gist_calls (store_kv e clk p r m) = []"
  by (simp_all add: store_kv_def Let_def split: option.splits)

lemma cache_miss_error:
  assumes "AI e m (merge_params p t mt (fst (load_config rt e))) = Inl err"
  shows "cache_miss rt e clk p m t mt c =
           \<lparr>response = error_response clk err, cache_after = c,
            trace = snd (load_config rt e) @
              [AIRun m (merge_params p t mt (fst (load_config rt e))),
               ConsoleError (lit ''Workflow error:'')]\<rparr>"
  using assms by (simp add: cache_miss_def Let_def case_prod_beta)

lemma cache_miss_success:
  assumes "AI e m (merge_params p t mt (fst (load_config rt e))) = Inr a"
  shows "cache_miss rt e clk p m t mt c =
           \<lparr>response =
              \<lparr>status = 200,
               body = WorkflowJson
                 \<lparr>result = extract_result rt a, source = Ai, response_model = m,
                  timestamp = now_response clk\<rparr>\<rparr>,
            cache_after = setCache (now_setCache clk) (cacheKey m p) (extract_result rt a) 3600 c,
            trace = snd (load_config rt e) @
              [AIRun m (merge_params p t mt (fst (load_config rt e)))] @
              store_kv e clk p (extract_result rt a) m\<rparr>"
  using assms by (simp add: cache_miss_def Let_def case_prod_beta)

lemma cache_miss_ai_calls:
  "ai_calls (trace (cache_miss rt e clk p m t mt c)) =
     [(m, merge_params p t mt (fst (load_config rt e)))]"
proof (cases "AI e m (merge_params p t mt (fst (load_config rt e)))")
  case (Inl err)
  then show ?thesis
    by (simp add: cache_miss_error ai_calls_append load_config_calls)
next
  case (Inr a)
  then show ?thesis
    by (simp add: cache_miss_success ai_calls_append load_config_calls store_kv_calls)
qed

subsection \<open>Every cached value is truthy\<close>

lemma cache_miss_cache:
  assumes "cache_after (cache_miss rt e clk p m t mt c) k = Some item"
  shows "c k = Some item \<or> truthy (item_value item)"
proof (cases "AI e m (merge_params p t mt (fst (load_config rt e)))")
  case (Inl err)
  with assms show ?thesis by (simp add: cache_miss_error)
next
  case (Inr a)
  with assms show ?thesis
    by (auto simp: cache_miss_success setCache_def truthy_extract_result split: if_splits)
qed

lemma workflow_cache:
  assumes "cache_after (workflow rt e clk request c) k = Some item"
  shows "c k = Some item \<or> truthy (item_value item)"
proof (cases request)
  case (Inl err)
  with assms show ?thesis by (simp add: workflow_def)
next
  case (Inr b)
  show ?thesis
  proof (cases b)
    case NullBody
    with assms Inr show ?thesis by (simp add: workflow_def)
  next
    case (Body req)
    note req = Inr [unfolded Body]
    show ?thesis
    proof (cases "prompt req")
      case None
      with assms req show ?thesis by (simp add: workflow_def)
    next
      case (Some p)
      show ?thesis
      proof (cases "p = []")
        case True
        with assms req Some show ?thesis by (simp add: workflow_def)
      next
        case False
        define m where
          "m = (case model req of None \<Rightarrow> lit ''@cf/meta/llama-2-7b-chat-int8'' | Some x \<Rightarrow> x)"
        obtain r c1 where g: "getCached (now_getCached clk) (cacheKey m p) c = (r, c1)"
          by (cases "getCached (now_getCached clk) (cacheKey m p) c")
        from getCached_cases [OF g] have sub: "c1 k = Some item \<Longrightarrow> c k = Some item"
          by (auto split: if_splits)
        from assms req Some False g
        have "c1 k = Some item \<or> truthy (item_value item)"
          by (auto simp: workflow_def Let_def m_def [symmetric] split: option.splits if_splits
              dest: cache_miss_cache)
        with sub show ?thesis by blast
      qed
    qed
  qed
qed

lemma reachable_truthy:
  assumes "reachable c" and "c k = Some item"
  shows "truthy (item_value item)"
  using assms
proof (induction arbitrary: k item rule: reachable.induct)
  case initial
  then show ?case by simp
next
  case (step c rt e clk request)
  from workflow_cache [OF step.prems] step.IH show ?case by blast
qed

subsection \<open>The first request on the empty cache\<close>

lemma gist_document_ex: "gist_document rt_ex (Some gist_ex) = Some config_ex"
  by (simp add: gist_document_def gist_ex_def rt_ex_def)

lemma load_config_ex:
  "load_config rt_ex env_ex =
     (config_ex, [GistFetch (lit ''https://api.github.com/gists/'' @ lit ''abc123'')
                    (lit ''Bearer '' @ lit ''token'')])"
proof -
  have "fetch rt_ex (lit ''https://api.github.com/gists/'' @ lit ''abc123'')
          (lit ''Bearer '' @ lit ''token'') = HttpResponse 200 (Some gist_ex)"
    by (simp add: rt_ex_def)
  then show ?thesis
    by (simp add: load_config_def env_ex_def getGistConfig_def Let_def gist_document_ex lit_def)
qed

lemma get_cold: "getCached now k Map.empty = (None, Map.empty)"
  by (simp add: getCached_def)

lemma workflow_cold:
  "workflow rt_ex env_ex clk_ex (Inr (Body req_ex)) Map.empty =
     cache_miss rt_ex env_ex clk_ex (lit ''Explain X'') (lit ''m1'') 0.2 2048 Map.empty"
  using workflow_miss [of req_ex "lit ''Explain X''" "lit ''m1''" clk_ex Map.empty Map.empty rt_ex env_ex]
  by (simp add: req_ex_def get_cold lit_def)

lemma answer_ex_result: "extract_result rt answer_ex = JStr (lit ''X is a letter'')"
  by (simp add: extract_result_def answer_ex_def lit_def)

lemma cache_warm_eq:
  "cache_warm = [key_ex \<mapsto> \<lparr>item_value = JStr (lit ''X is a letter''), item_expiry = 3601001\<rparr>]"
proof -
  have ai: "AI env_ex (lit ''m1'')
              (merge_params (lit ''Explain X'') 0.2 2048 (fst (load_config rt_ex env_ex))) =
            Inr answer_ex"
    by (simp add: env_ex_def)
  have "cache_warm =
          setCache (now_setCache clk_ex) key_ex (extract_result rt_ex answer_ex) 3600 Map.empty"
    unfolding cache_warm_def workflow_cold cache_miss_success [OF ai] key_ex_def by simp
  then show ?thesis
    by (simp add: answer_ex_result setCache_def clk_ex_def)
qed

lemma reachable_cache_warm: "reachable cache_warm"
  unfolding cache_warm_def by (rule reachable.step) (rule reachable.initial)

lemma cache_warm_key:
  "cache_warm (cacheKey (lit ''m1'') (lit ''Explain X'')) =
     Some \<lparr>item_value = JStr (lit ''X is a letter''), item_expiry = 3601001\<rparr>"
  by (simp add: cache_warm_eq key_ex_def)

lemma ex_facts:
  "prompt req_ex = Some (lit ''Explain X'')"
  "lit ''Explain X'' \<noteq> []"
  "lit ''m1'' = (case model req_ex of None \<Rightarrow> lit ''@cf/meta/llama-2-7b-chat-int8'' | Some x \<Rightarrow> x)"
  "0.2 = (case temperature req_ex of None \<Rightarrow> 0.7 | Some x \<Rightarrow> x)"
  "2048 = (case max_tokens req_ex of None \<Rightarrow> 2048 | Some x \<Rightarrow> x)"
  by (simp_all add: req_ex_def lit_def)

subsection \<open>Cache hits, validation and the cache key\<close>

text \<open>
  C2: a request with a non-empty prompt whose key holds an entry that has not expired, in a
  cache the worker can hold, is answered with the cached value and the source \<open>cache\<close>; the
  trace is empty, so the gist is not fetched, the model is not run and nothing is written
  to the KV namespace, and the cache is left as it was.
\<close>

theorem cache_hit_returns_cached:
  assumes "reachable c"
    and "prompt req = Some p" and "p \<noteq> []"
    and "m = (case model req of None \<Rightarrow> lit ''@cf/meta/llama-2-7b-chat-int8'' | Some x \<Rightarrow> x)"
    and "c (cacheKey m p) = Some item"
    and "\<not> item_expiry item < now_getCached clk"
  shows "workflow rt e clk (Inr (Body req)) c =
           \<lparr>response =
              \<lparr>status = 200,
               body = WorkflowJson
                 \<lparr>result = item_value item, source = Cache, response_model = m,
                  timestamp = now_response clk\<rparr>\<rparr>,
            cache_after = c, trace = []\<rparr>"
proof -
  have "truthy (item_value item)"
    using assms(1,5) by (rule reachable_truthy)
  moreover have "getCached (now_getCached clk) (cacheKey m p) c = (Some (item_value item), c)"
    using assms(5,6) by (simp add: getCached_def)
  ultimately show ?thesis
    using assms(2,3,4) by (simp add: workflow_def Let_def)
qed

text \<open>The second identical request within the hour is served from the cache.\<close>

theorem cache_hit_returns_cached_witness:
  "reachable cache_warm \<and> prompt req_ex = Some (lit ''Explain X'') \<and> lit ''Explain X'' \<noteq> [] \<and>
   cache_warm (cacheKey (lit ''m1'') (lit ''Explain X'')) =
     Some \<lparr>item_value = JStr (lit ''X is a letter''), item_expiry = 3601001\<rparr> \<and>
   \<not> (3601001 < now_getCached clk_later) \<and>
   workflow rt_ex env_ex clk_later (Inr (Body req_ex)) cache_warm =
     \<lparr>response =
        \<lparr>status = 200,
         body = WorkflowJson
           \<lparr>result = JStr (lit ''X is a letter''), source = Cache, response_model = lit ''m1'',
            timestamp = 5003\<rparr>\<rparr>,
      cache_after = cache_warm, trace = []\<rparr>"
proof -
  have f: "\<not> item_expiry \<lparr>item_value = JStr (lit ''X is a letter''), item_expiry = 3601001\<rparr>
             < now_getCached clk_later"
    by (simp add: clk_later_def)
  note th = cache_hit_returns_cached [where c = cache_warm and rt = rt_ex and e = env_ex,
      OF reachable_cache_warm ex_facts(1,2,3) cache_warm_key f]
  have "now_response clk_later = 5003" by (simp add: clk_later_def)
  with th reachable_cache_warm ex_facts(1,2) cache_warm_key f show ?thesis by simp
qed

text \<open>
  C3, as amended: a request without a prompt (a body that \<^verbatim>\<open>request.json()\<close> cannot parse,
  a body that is \<open>null\<close>, or a parsed body whose prompt is missing or empty) leaves the cache
  as it was and makes no call to the gist, the model or the KV namespace; and when the
  body has parsed to a value other than \<open>null\<close>, the answer is the status 400 whatever the
  other fields are, with an empty trace.
\<close>

theorem empty_prompt_is_rejected:
  assumes "request = Inl err \<or> request = Inr NullBody \<or>
           (request = Inr (Body req) \<and> (prompt req = None \<or> prompt req = Some []))"
  shows "cache_after (workflow rt e clk request c) = c \<and>
         gist_calls (trace (workflow rt e clk request c)) = [] \<and>
         ai_calls (trace (workflow rt e clk request c)) = [] \<and>
         kv_calls (trace (workflow rt e clk request c)) = [] \<and>
         (request = Inr (Body req) \<longrightarrow>
            workflow rt e clk request c =
              \<lparr>response = \<lparr>status = 400, body = ErrorJson (lit ''Prompt is required'') None\<rparr>,
               cache_after = c, trace = []\<rparr>)"
  using assms by (auto simp: workflow_def Let_def)

text \<open>An empty prompt with every other field set, and a body that is \<open>null\<close>.\<close>

theorem empty_prompt_is_rejected_witness:
  "prompt req_empty = Some [] \<and>
   workflow rt_ex env_ex clk_ex (Inr (Body req_empty)) cache_warm =
     \<lparr>response = \<lparr>status = 400, body = ErrorJson (lit ''Prompt is required'') None\<rparr>,
      cache_after = cache_warm, trace = []\<rparr> \<and>
   cache_after (workflow rt_ex env_ex clk_ex (Inr NullBody) cache_warm) = cache_warm \<and>
   ai_calls (trace (workflow rt_ex env_ex clk_ex (Inr NullBody) cache_warm)) = []"
proof -
  have p: "prompt req_empty = Some []" by (simp add: req_empty_def)
  then have h: "Inr (Body req_empty) = Inl err \<or> Inr (Body req_empty) = Inr NullBody \<or>
      (Inr (Body req_empty) = Inr (Body req_empty) \<and>
       (prompt req_empty = None \<or> prompt req_empty = Some []))" for err :: thrown
    by simp
  have n: "Inr NullBody = Inl err \<or> Inr NullBody = Inr NullBody \<or>
      (Inr NullBody = Inr (Body req) \<and> (prompt req = None \<or> prompt req = Some []))"
    for err :: thrown and req
    by simp
  from empty_prompt_is_rejected [OF h, where rt = rt_ex and e = env_ex and clk = clk_ex
      and c = cache_warm]
  have a: "workflow rt_ex env_ex clk_ex (Inr (Body req_empty)) cache_warm =
     \<lparr>response = \<lparr>status = 400, body = ErrorJson (lit ''Prompt is required'') None\<rparr>,
      cache_after = cache_warm, trace = []\<rparr>"
    by blast
  from empty_prompt_is_rejected [OF n, where rt = rt_ex and e = env_ex and clk = clk_ex
      and c = cache_warm]
  have b: "cache_after (workflow rt_ex env_ex clk_ex (Inr NullBody) cache_warm) = cache_warm \<and>
   ai_calls (trace (workflow rt_ex env_ex clk_ex (Inr NullBody) cache_warm)) = []"
    by blast
  from p a b show ?thesis by blast
qed

text \<open>
  The claim C3 as stated, that every request without a prompt is answered with the invalid
  input error, fails: line 91 is reached only after the body has parsed (line 83) and has
  been destructured (lines 84-89). A body that is \<open>null\<close>, and a body that is empty, carry
  no prompt and are answered by the \<open>catch\<close> with status 500, after its log line.
\<close>

theorem null_body_is_server_error_counterexample:
  "status (response (workflow rt_ex env_ex clk_ex (Inr NullBody) Map.empty)) = 500 \<and>
   status (response (workflow rt_ex env_ex clk_ex (Inr NullBody) Map.empty)) \<noteq> 400 \<and>
   trace (workflow rt_ex env_ex clk_ex (Inr NullBody) Map.empty) =
     [ConsoleError (lit ''Workflow error:'')] \<and>
   status (response (workflow rt_ex env_ex clk_ex
     (Inl (Thrown (Some (lit ''Unexpected end of JSON input'')))) Map.empty)) = 500"
  by (simp add: workflow_def error_response_def)

text \<open>
  C5: the cache key is a function of the model name and the first 50 code units of the
  prompt: two prompts that agree on that prefix give the same key under the same model,
  and the key is at most 54 code units longer than the model name.
\<close>

theorem cache_key_depends_on_prefix:
  assumes "take 50 p = take 50 q"
  shows "cacheKey m p = cacheKey m q \<and> cacheKey m (take 50 p) = cacheKey m p \<and>
         length (cacheKey m p) \<le> length m + 54"
  using assms by (simp add: cacheKey_def lit_def)

theorem cache_key_depends_on_prefix_witness:
  "take 50 (replicate 50 97 @ lit ''x'') = take 50 (replicate 50 97 @ lit ''y'') \<and>
   replicate 50 97 @ lit ''x'' \<noteq> replicate 50 97 @ lit ''y'' \<and>
   cacheKey (lit ''m1'') (replicate 50 97 @ lit ''x'') =
     cacheKey (lit ''m1'') (replicate 50 97 @ lit ''y'')"
proof -
  have h: "take 50 (replicate 50 97 @ lit ''x'') = take 50 (replicate 50 97 @ lit ''y'')"
    by simp
  from cache_key_depends_on_prefix [OF h, of "lit ''m1''"] h show ?thesis
    by (simp add: lit_def)
qed

subsection \<open>Expired entries\<close>

lemma getCached_miss:
  assumes "getCached now key c = (None, c1)"
  shows "c1 = c(key := None)"
  using assms by (auto simp: getCached_def split: option.splits if_splits)

lemma getCached_expired:
  assumes "c key = Some item" and "item_expiry item < now"
  shows "getCached now key c = (None, c(key := None))"
  using assms by (simp add: getCached_def)

lemma getCached_absent:
  assumes "c key = None"
  shows "getCached now key c = (None, c(key := None))"
  using assms by (simp add: getCached_def fun_upd_idem)

text \<open>
  C4: when the entry under the request's key has expired, the read returns nothing and
  deletes it, exactly as a read of the cache without that entry; the whole request then
  runs as it does on the cache without the entry, the model is run once, and when the
  model answers, the key holds the fresh result with an expiry one hour after the write.
\<close>

theorem expired_entry_is_absent:
  assumes "prompt req = Some p" and "p \<noteq> []"
    and "m = (case model req of None \<Rightarrow> lit ''@cf/meta/llama-2-7b-chat-int8'' | Some x \<Rightarrow> x)"
    and "t = (case temperature req of None \<Rightarrow> 0.7 | Some x \<Rightarrow> x)"
    and "mt = (case max_tokens req of None \<Rightarrow> 2048 | Some x \<Rightarrow> x)"
    and "c (cacheKey m p) = Some item"
    and "item_expiry item < now_getCached clk"
  shows "getCached (now_getCached clk) (cacheKey m p) c = (None, c((cacheKey m p) := None)) \<and>
         getCached (now_getCached clk) (cacheKey m p) (c((cacheKey m p) := None)) =
           (None, c((cacheKey m p) := None)) \<and>
         workflow rt e clk (Inr (Body req)) c = workflow rt e clk (Inr (Body req)) (c((cacheKey m p) := None)) \<and>
         ai_calls (trace (workflow rt e clk (Inr (Body req)) c)) =
           [(m, merge_params p t mt (fst (load_config rt e)))] \<and>
         (\<forall>a. AI e m (merge_params p t mt (fst (load_config rt e))) = Inr a \<longrightarrow>
            cache_after (workflow rt e clk (Inr (Body req)) c) (cacheKey m p) =
              Some \<lparr>item_value = extract_result rt a, item_expiry = now_setCache clk + 3600000\<rparr>)"
proof -
  let ?k = "cacheKey m p"
  have g1: "getCached (now_getCached clk) ?k c = (None, c(?k := None))"
    using assms(6,7) by (rule getCached_expired)
  have g2: "getCached (now_getCached clk) ?k (c(?k := None)) = (None, c(?k := None))"
    using getCached_absent [of "c(?k := None)" ?k] by simp
  have w1: "workflow rt e clk (Inr (Body req)) c = cache_miss rt e clk p m t mt (c(?k := None))"
    using workflow_miss [OF assms(1,2,3) g1] assms(4,5) by simp
  have w2: "workflow rt e clk (Inr (Body req)) (c(?k := None)) =
              cache_miss rt e clk p m t mt (c(?k := None))"
    using workflow_miss [OF assms(1,2,3) g2] assms(4,5) by simp
  have calls: "ai_calls (trace (workflow rt e clk (Inr (Body req)) c)) =
                 [(m, merge_params p t mt (fst (load_config rt e)))]"
    by (simp add: w1 cache_miss_ai_calls)
  have fresh: "cache_after (workflow rt e clk (Inr (Body req)) c) ?k =
                 Some \<lparr>item_value = extract_result rt a, item_expiry = now_setCache clk + 3600000\<rparr>"
    if "AI e m (merge_params p t mt (fst (load_config rt e))) = Inr a" for a
    by (simp add: w1 cache_miss_success [OF that] setCache_def)
  from g1 g2 w1 w2 calls fresh show ?thesis by simp
qed

theorem expired_entry_is_absent_witness:
  "cache_warm (cacheKey (lit ''m1'') (lit ''Explain X'')) =
     Some \<lparr>item_value = JStr (lit ''X is a letter''), item_expiry = 3601001\<rparr> \<and>
   3601001 < now_getCached clk_late \<and>
   getCached (now_getCached clk_late) (cacheKey (lit ''m1'') (lit ''Explain X'')) cache_warm =
     (None, cache_warm((cacheKey (lit ''m1'') (lit ''Explain X'')) := None)) \<and>
   cache_after (workflow rt_ex env_ex clk_late (Inr (Body req_ex)) cache_warm)
       (cacheKey (lit ''m1'') (lit ''Explain X'')) =
     Some \<lparr>item_value = JStr (lit ''X is a letter''), item_expiry = 7201003\<rparr>"
proof -
  note d = cache_warm_key
  have f: "item_expiry \<lparr>item_value = JStr (lit ''X is a letter''), item_expiry = 3601001\<rparr>
             < now_getCached clk_late"
    by (simp add: clk_late_def)
  have ai: "AI env_ex (lit ''m1'')
              (merge_params (lit ''Explain X'') 0.2 2048 (fst (load_config rt_ex env_ex))) =
            Inr answer_ex"
    by (simp add: env_ex_def)
  note th = expired_entry_is_absent [where c = cache_warm and rt = rt_ex and e = env_ex,
      OF ex_facts d f]
  from th have g: "getCached (now_getCached clk_late) (cacheKey (lit ''m1'') (lit ''Explain X''))
      cache_warm = (None, cache_warm((cacheKey (lit ''m1'') (lit ''Explain X'')) := None))"
    by blast
  from th ai have h: "cache_after (workflow rt_ex env_ex clk_late (Inr (Body req_ex)) cache_warm)
       (cacheKey (lit ''m1'') (lit ''Explain X'')) =
     Some \<lparr>item_value = extract_result rt_ex answer_ex,
       item_expiry = now_setCache clk_late + 3600000\<rparr>"
    by blast
  have "now_setCache clk_late + 3600000 = 7201003" by (simp add: clk_late_def)
  with h have h': "cache_after (workflow rt_ex env_ex clk_late (Inr (Body req_ex)) cache_warm)
       (cacheKey (lit ''m1'') (lit ''Explain X'')) =
     Some \<lparr>item_value = JStr (lit ''X is a letter''), item_expiry = 7201003\<rparr>"
    by (simp add: answer_ex_result)
  have f': "3601001 < now_getCached clk_late" by (simp add: clk_late_def)
  from d f' g h' show ?thesis by blast
qed

subsection \<open>Loading the configuration\<close>

lemma load_config_calls_gist:
  assumes "GIST_ID e = Some g" and "g \<noteq> []" and "GITHUB_TOKEN e = Some tok" and "tok \<noteq> []"
  shows "load_config rt e = getGistConfig rt g tok"
  using assms by (simp add: load_config_def)

lemma load_config_unset:
  assumes "GIST_ID e = None \<or> GIST_ID e = Some [] \<or> GITHUB_TOKEN e = None \<or> GITHUB_TOKEN e = Some []"
  shows "load_config rt e = (JObj [], [])"
  using assms by (auto simp: load_config_def split: option.splits)

lemma getGistConfig_failure:
  assumes "fetch rt (lit ''https://api.github.com/gists/'' @ g) (lit ''Bearer '' @ tok) = NetworkError \<or>
           (\<exists>st b. fetch rt (lit ''https://api.github.com/gists/'' @ g) (lit ''Bearer '' @ tok) =
                HttpResponse st b \<and> (st < 200 \<or> 299 < st \<or> gist_document rt b = None))"
  shows "fst (getGistConfig rt g tok) = JObj []"
  using assms by (auto simp: getGistConfig_def Let_def split: fetch_result.splits option.splits)

lemma cache_miss_gist_calls:
  "gist_calls (trace (cache_miss rt e clk p m t mt c)) = gist_calls (snd (load_config rt e))"
proof (cases "AI e m (merge_params p t mt (fst (load_config rt e)))")
  case (Inl err)
  then show ?thesis
    by (simp add: cache_miss_error gist_calls_append)
next
  case (Inr a)
  then show ?thesis
    by (simp add: cache_miss_success gist_calls_append store_kv_calls)
qed

text \<open>
  C6: when the gist is configured and its load fails (the fetch rejects, the status is not
  2xx, or lines 41-43 throw on the payload), the configuration is the empty object, the
  gist was fetched once, and a model that answers for the parameters without
  configuration gives a response with status 200 and the source \<open>ai\<close>.
\<close>

theorem config_failure_degrades:
  assumes "prompt req = Some p" and "p \<noteq> []"
    and "m = (case model req of None \<Rightarrow> lit ''@cf/meta/llama-2-7b-chat-int8'' | Some x \<Rightarrow> x)"
    and "t = (case temperature req of None \<Rightarrow> 0.7 | Some x \<Rightarrow> x)"
    and "mt = (case max_tokens req of None \<Rightarrow> 2048 | Some x \<Rightarrow> x)"
    and "getCached (now_getCached clk) (cacheKey m p) c = (None, c1)"
    and "GIST_ID e = Some g" and "g \<noteq> []" and "GITHUB_TOKEN e = Some tok" and "tok \<noteq> []"
    and "url = lit ''https://api.github.com/gists/'' @ g" and "auth = lit ''Bearer '' @ tok"
    and "fetch rt url auth = NetworkError \<or>
         (\<exists>st b. fetch rt url auth = HttpResponse st b \<and>
            (st < 200 \<or> 299 < st \<or> gist_document rt b = None))"
    and "AI e m (merge_params p t mt (JObj [])) = Inr a"
  shows "fst (getGistConfig rt g tok) = JObj [] \<and>
         gist_calls (trace (workflow rt e clk (Inr (Body req)) c)) = [(url, auth)] \<and>
         ai_calls (trace (workflow rt e clk (Inr (Body req)) c)) = [(m, merge_params p t mt (JObj []))] \<and>
         response (workflow rt e clk (Inr (Body req)) c) =
           \<lparr>status = 200,
            body = WorkflowJson
              \<lparr>result = extract_result rt a, source = Ai, response_model = m,
               timestamp = now_response clk\<rparr>\<rparr>"
proof -
  have w: "workflow rt e clk (Inr (Body req)) c = cache_miss rt e clk p m t mt c1"
    using workflow_miss [OF assms(1,2,3,6)] assms(4,5) by simp
  have l: "load_config rt e = getGistConfig rt g tok"
    using assms(7-10) by (rule load_config_calls_gist)
  have empty: "fst (getGistConfig rt g tok) = JObj []"
    using assms(13) unfolding assms(11,12) by (rule getGistConfig_failure)
  have ai: "AI e m (merge_params p t mt (fst (load_config rt e))) = Inr a"
    using assms(14) by (simp add: l empty)
  have "gist_calls (trace (workflow rt e clk (Inr (Body req)) c)) = [(url, auth)]"
    by (simp add: w cache_miss_gist_calls l getGistConfig_calls assms(11,12))
  moreover have "ai_calls (trace (workflow rt e clk (Inr (Body req)) c)) =
                   [(m, merge_params p t mt (JObj []))]"
    by (simp add: w cache_miss_ai_calls l empty)
  moreover have "response (workflow rt e clk (Inr (Body req)) c) =
           \<lparr>status = 200,
            body = WorkflowJson
              \<lparr>result = extract_result rt a, source = Ai, response_model = m,
               timestamp = now_response clk\<rparr>\<rparr>"
    by (simp add: w cache_miss_success [OF ai])
  ultimately show ?thesis using empty by simp
qed

text \<open>The gist cannot be reached: the cold request is still answered by the model.\<close>

theorem config_failure_degrades_witness:
  "fetch rt_down (lit ''https://api.github.com/gists/'' @ lit ''abc123'')
     (lit ''Bearer '' @ lit ''token'') = NetworkError \<and>
   fst (getGistConfig rt_down (lit ''abc123'') (lit ''token'')) = JObj [] \<and>
   gist_calls (trace (workflow rt_down env_ex clk_ex (Inr (Body req_ex)) Map.empty)) =
     [(lit ''https://api.github.com/gists/'' @ lit ''abc123'', lit ''Bearer '' @ lit ''token'')] \<and>
   response (workflow rt_down env_ex clk_ex (Inr (Body req_ex)) Map.empty) =
     \<lparr>status = 200,
      body = WorkflowJson
        \<lparr>result = JStr (lit ''X is a letter''), source = Ai, response_model = lit ''m1'',
         timestamp = 1003\<rparr>\<rparr>"
proof -
  have g: "getCached (now_getCached clk_ex) (cacheKey (lit ''m1'') (lit ''Explain X'')) Map.empty =
             (None, Map.empty)"
    by (rule get_cold)
  have i: "GIST_ID env_ex = Some (lit ''abc123'')" by (simp add: env_ex_def)
  have i': "lit ''abc123'' \<noteq> []" by (simp add: lit_def)
  have k: "GITHUB_TOKEN env_ex = Some (lit ''token'')" by (simp add: env_ex_def)
  have k': "lit ''token'' \<noteq> []" by (simp add: lit_def)
  have down: "fetch rt_down (lit ''https://api.github.com/gists/'' @ lit ''abc123'')
     (lit ''Bearer '' @ lit ''token'') = NetworkError"
    by (simp add: rt_down_def)
  then have f: "fetch rt_down (lit ''https://api.github.com/gists/'' @ lit ''abc123'')
       (lit ''Bearer '' @ lit ''token'') = NetworkError \<or>
     (\<exists>st b. fetch rt_down (lit ''https://api.github.com/gists/'' @ lit ''abc123'')
          (lit ''Bearer '' @ lit ''token'') = HttpResponse st b \<and>
        (st < 200 \<or> 299 < st \<or> gist_document rt_down b = None))"
    by (rule disjI1)
  have ai: "AI env_ex (lit ''m1'') (merge_params (lit ''Explain X'') 0.2 2048 (JObj [])) =
              Inr answer_ex"
    by (simp add: env_ex_def)
  note th = config_failure_degrades [where c = Map.empty and rt = rt_down and e = env_ex,
      OF ex_facts g i i' k k' refl refl f ai]
  have "now_response clk_ex = 1003" by (simp add: clk_ex_def)
  with th down show ?thesis by (simp add: answer_ex_result)
qed

subsection \<open>A model that throws\<close>

lemma cache_miss_kv_calls_error:
  assumes "AI e m (merge_params p t mt (fst (load_config rt e))) = Inl err"
  shows "kv_calls (trace (cache_miss rt e clk p m t mt c)) = []"
  by (simp add: cache_miss_error [OF assms] kv_calls_append load_config_calls)

text \<open>
  C7, as amended: when the cache does not answer and the model throws, the response is the
  status 500 with the message of the thrown value, the model was run once, nothing was
  written to the KV namespace, and the cache is the one the request started with except
  that the request's key holds no entry (an expired entry there has been deleted by the
  read).
\<close>

theorem model_error_propagates:
  assumes "prompt req = Some p" and "p \<noteq> []"
    and "m = (case model req of None \<Rightarrow> lit ''@cf/meta/llama-2-7b-chat-int8'' | Some x \<Rightarrow> x)"
    and "t = (case temperature req of None \<Rightarrow> 0.7 | Some x \<Rightarrow> x)"
    and "mt = (case max_tokens req of None \<Rightarrow> 2048 | Some x \<Rightarrow> x)"
    and "getCached (now_getCached clk) (cacheKey m p) c = (None, c1)"
    and "AI e m (merge_params p t mt (fst (load_config rt e))) = Inl err"
  shows "response (workflow rt e clk (Inr (Body req)) c) = error_response clk err \<and>
         status (error_response clk err) = 500 \<and>
         ai_calls (trace (workflow rt e clk (Inr (Body req)) c)) =
           [(m, merge_params p t mt (fst (load_config rt e)))] \<and>
         kv_calls (trace (workflow rt e clk (Inr (Body req)) c)) = [] \<and>
         cache_after (workflow rt e clk (Inr (Body req)) c) = c((cacheKey m p) := None)"
proof -
  have w: "workflow rt e clk (Inr (Body req)) c = cache_miss rt e clk p m t mt c1"
    using workflow_miss [OF assms(1,2,3,6)] assms(4,5) by simp
  have c1: "c1 = c((cacheKey m p) := None)"
    using assms(6) by (rule getCached_miss)
  have "response (workflow rt e clk (Inr (Body req)) c) = error_response clk err"
    by (simp add: w cache_miss_error [OF assms(7)])
  moreover have "status (error_response clk err) = 500"
    by (simp add: error_response_def)
  moreover have "ai_calls (trace (workflow rt e clk (Inr (Body req)) c)) =
           [(m, merge_params p t mt (fst (load_config rt e)))]"
    by (simp add: w cache_miss_ai_calls)
  moreover have "kv_calls (trace (workflow rt e clk (Inr (Body req)) c)) = []"
    by (simp add: w cache_miss_kv_calls_error [OF assms(7)])
  moreover have "cache_after (workflow rt e clk (Inr (Body req)) c) = c((cacheKey m p) := None)"
    by (simp add: w cache_miss_error [OF assms(7)] c1)
  ultimately show ?thesis by blast
qed

lemma get_late:
  "getCached (now_getCached clk_late) (cacheKey (lit ''m1'') (lit ''Explain X'')) cache_warm =
     (None, cache_warm((cacheKey (lit ''m1'') (lit ''Explain X'')) := None))"
  by (rule getCached_expired [where c = cache_warm, OF cache_warm_key]) (simp add: clk_late_def)

lemma ai_down:
  "AI env_ai_down m ps = Inl (Thrown (Some (lit ''model unavailable'')))"
  by (simp add: env_ai_down_def)

text \<open>The model is down on a cold cache: status 500, one run, no write, the cache still empty.\<close>

theorem model_error_propagates_witness:
  "getCached (now_getCached clk_ex) (cacheKey (lit ''m1'') (lit ''Explain X'')) Map.empty =
     (None, Map.empty) \<and>
   response (workflow rt_ex env_ai_down clk_ex (Inr (Body req_ex)) Map.empty) =
     \<lparr>status = 500, body = ErrorJson (lit ''model unavailable'') (Some 1003)\<rparr> \<and>
   kv_calls (trace (workflow rt_ex env_ai_down clk_ex (Inr (Body req_ex)) Map.empty)) = [] \<and>
   cache_after (workflow rt_ex env_ai_down clk_ex (Inr (Body req_ex)) Map.empty) = Map.empty"
proof -
  note th = model_error_propagates [where c = Map.empty and rt = rt_ex and e = env_ai_down and clk = clk_ex,
      OF ex_facts get_cold ai_down]
  have "error_response clk_ex (Thrown (Some (lit ''model unavailable''))) =
          \<lparr>status = 500, body = ErrorJson (lit ''model unavailable'') (Some 1003)\<rparr>"
    by (simp add: error_response_def clk_ex_def lit_def)
  with th get_cold [of "now_getCached clk_ex"] show ?thesis by simp
qed

text \<open>
  The claim C7 as stated, that the state is unchanged when the model throws, fails on a
  cache the worker can hold: the entry written by the first request has expired when the
  second arrives, the model throws, and the entry is gone.
\<close>

theorem model_error_changes_cache_counterexample:
  "reachable cache_warm \<and>
   cache_warm (cacheKey (lit ''m1'') (lit ''Explain X'')) =
     Some \<lparr>item_value = JStr (lit ''X is a letter''), item_expiry = 3601001\<rparr> \<and>
   status (response (workflow rt_ex env_ai_down clk_late (Inr (Body req_ex)) cache_warm)) = 500 \<and>
   cache_after (workflow rt_ex env_ai_down clk_late (Inr (Body req_ex)) cache_warm)
     (cacheKey (lit ''m1'') (lit ''Explain X'')) = None \<and>
   cache_after (workflow rt_ex env_ai_down clk_late (Inr (Body req_ex)) cache_warm) \<noteq> cache_warm"
proof -
  have w: "workflow rt_ex env_ai_down clk_late (Inr (Body req_ex)) cache_warm =
             cache_miss rt_ex env_ai_down clk_late (lit ''Explain X'') (lit ''m1'') 0.2 2048
               (cache_warm((cacheKey (lit ''m1'') (lit ''Explain X'')) := None))"
    using workflow_miss [OF ex_facts(1,2,3) get_late, of rt_ex env_ai_down]
    by (simp add: req_ex_def)
  have s: "status (response (workflow rt_ex env_ai_down clk_late (Inr (Body req_ex)) cache_warm)) = 500"
    by (simp add: w cache_miss_error [OF ai_down] error_response_def)
  have n: "cache_after (workflow rt_ex env_ai_down clk_late (Inr (Body req_ex)) cache_warm)
     (cacheKey (lit ''m1'') (lit ''Explain X'')) = None"
    by (simp add: w cache_miss_error [OF ai_down])
  from n cache_warm_key
  have "cache_after (workflow rt_ex env_ai_down clk_late (Inr (Body req_ex)) cache_warm) \<noteq> cache_warm"
    by (metis option.distinct(1))
  with reachable_cache_warm cache_warm_key s n show ?thesis by blast
qed

subsection \<open>Writes after a fresh result\<close>

text \<open>
  C8: when the cache does not answer and the model answers, the response has status 200,
  the source \<open>ai\<close> and the model's result, whatever the KV namespace does; \<open>setCache\<close> is a
  map update and has stored the result; and when the write to the KV namespace throws,
  the trace ends with that one write and the log line of its \<open>catch\<close>.
\<close>

theorem write_failures_are_swallowed:
  assumes "prompt req = Some p" and "p \<noteq> []"
    and "m = (case model req of None \<Rightarrow> lit ''@cf/meta/llama-2-7b-chat-int8'' | Some x \<Rightarrow> x)"
    and "t = (case temperature req of None \<Rightarrow> 0.7 | Some x \<Rightarrow> x)"
    and "mt = (case max_tokens req of None \<Rightarrow> 2048 | Some x \<Rightarrow> x)"
    and "getCached (now_getCached clk) (cacheKey m p) c = (None, c1)"
    and "AI e m (merge_params p t mt (fst (load_config rt e))) = Inr a"
    and "r = extract_result rt a"
    and "key = lit ''workflow:'' @ int_text (now_kv_key clk)"
    and "d = \<lparr>data_prompt = p, data_result = r, data_model = m,
               data_timestamp = now_kv_record clk\<rparr>"
  shows "response (workflow rt e clk (Inr (Body req)) c) =
           \<lparr>status = 200,
            body = WorkflowJson
              \<lparr>result = r, source = Ai, response_model = m, timestamp = now_response clk\<rparr>\<rparr> \<and>
         cache_after (workflow rt e clk (Inr (Body req)) c) (cacheKey m p) =
           Some \<lparr>item_value = r, item_expiry = now_setCache clk + 3600000\<rparr> \<and>
         (\<forall>put err. CONFIG e = Some put \<and> put key d 86400 = Some err \<longrightarrow>
            trace (workflow rt e clk (Inr (Body req)) c) =
              snd (load_config rt e) @
              [AIRun m (merge_params p t mt (fst (load_config rt e))),
               KVPut key d 86400, ConsoleError (lit ''KV storage error:'')])"
proof -
  have w: "workflow rt e clk (Inr (Body req)) c = cache_miss rt e clk p m t mt c1"
    using workflow_miss [OF assms(1,2,3,6)] assms(4,5) by simp
  note s = cache_miss_success [OF assms(7)]
  have "response (workflow rt e clk (Inr (Body req)) c) =
           \<lparr>status = 200,
            body = WorkflowJson
              \<lparr>result = r, source = Ai, response_model = m, timestamp = now_response clk\<rparr>\<rparr>"
    by (simp add: w s assms(8))
  moreover have "cache_after (workflow rt e clk (Inr (Body req)) c) (cacheKey m p) =
           Some \<lparr>item_value = r, item_expiry = now_setCache clk + 3600000\<rparr>"
    by (simp add: w s assms(8) setCache_def)
  moreover have "trace (workflow rt e clk (Inr (Body req)) c) =
              snd (load_config rt e) @
              [AIRun m (merge_params p t mt (fst (load_config rt e))),
               KVPut key d 86400, ConsoleError (lit ''KV storage error:'')]"
    if "CONFIG e = Some put" and "put key d 86400 = Some err" for put err
    using that by (simp add: w s store_kv_def Let_def assms(8,9,10))
  ultimately show ?thesis by blast
qed

lemma ai_kv_down: "AI env_kv_down m ps = Inr answer_ex"
  by (simp add: env_kv_down_def env_ex_def)

text \<open>The KV namespace is down: the answer is still returned and cached.\<close>

theorem write_failures_are_swallowed_witness:
  "response (workflow rt_ex env_kv_down clk_ex (Inr (Body req_ex)) Map.empty) =
     \<lparr>status = 200,
      body = WorkflowJson
        \<lparr>result = JStr (lit ''X is a letter''), source = Ai, response_model = lit ''m1'',
         timestamp = 1003\<rparr>\<rparr> \<and>
   cache_after (workflow rt_ex env_kv_down clk_ex (Inr (Body req_ex)) Map.empty)
       (cacheKey (lit ''m1'') (lit ''Explain X'')) =
     Some \<lparr>item_value = JStr (lit ''X is a letter''), item_expiry = 3601001\<rparr> \<and>
   trace (workflow rt_ex env_kv_down clk_ex (Inr (Body req_ex)) Map.empty) =
     snd (load_config rt_ex env_kv_down) @
     [AIRun (lit ''m1'')
        (merge_params (lit ''Explain X'') 0.2 2048 (fst (load_config rt_ex env_kv_down))),
      KVPut (lit ''workflow:1002'')
        \<lparr>data_prompt = lit ''Explain X'', data_result = JStr (lit ''X is a letter''),
         data_model = lit ''m1'', data_timestamp = 1002\<rparr> 86400,
      ConsoleError (lit ''KV storage error:'')]"
proof -
  have k: "lit ''workflow:1002'' = lit ''workflow:'' @ int_text (now_kv_key clk_ex)"
    by (simp add: clk_ex_def int_text_def nat_text.simps lit_def)
  have d: "\<lparr>data_prompt = lit ''Explain X'', data_result = JStr (lit ''X is a letter''),
         data_model = lit ''m1'', data_timestamp = 1002\<rparr> =
        \<lparr>data_prompt = lit ''Explain X'', data_result = JStr (lit ''X is a letter''),
         data_model = lit ''m1'', data_timestamp = now_kv_record clk_ex\<rparr>"
    by (simp add: clk_ex_def)
  note th = write_failures_are_swallowed [where c = Map.empty and rt = rt_ex and e = env_kv_down and clk = clk_ex,
      OF ex_facts get_cold ai_kv_down answer_ex_result [symmetric] k d]
  have put: "CONFIG env_kv_down = Some (\<lambda>k d ttl. Some (Thrown (Some (lit ''KV unavailable''))))"
    by (simp add: env_kv_down_def)
  have t: "now_response clk_ex = 1003" "now_setCache clk_ex + 3600000 = 3601001"
    by (simp_all add: clk_ex_def)
  from th put show ?thesis unfolding t by blast
qed

text \<open>
  C9: when the model answers with an object whose \<open>response\<close> property is absent or falsy
  (the empty string among others), the result that is returned and cached is the text
  \<^verbatim>\<open>JSON.stringify\<close> gives for the whole object.
\<close>

theorem falsy_response_is_serialised:
  assumes "prompt req = Some p" and "p \<noteq> []"
    and "m = (case model req of None \<Rightarrow> lit ''@cf/meta/llama-2-7b-chat-int8'' | Some x \<Rightarrow> x)"
    and "t = (case temperature req of None \<Rightarrow> 0.7 | Some x \<Rightarrow> x)"
    and "mt = (case max_tokens req of None \<Rightarrow> 2048 | Some x \<Rightarrow> x)"
    and "getCached (now_getCached clk) (cacheKey m p) c = (None, c1)"
    and "AI e m (merge_params p t mt (fst (load_config rt e))) = Inr a"
    and "map_of a (lit ''response'') = None \<or>
         (\<exists>v. map_of a (lit ''response'') = Some v \<and> \<not> truthy v)"
  shows "response (workflow rt e clk (Inr (Body req)) c) =
           \<lparr>status = 200,
            body = WorkflowJson
              \<lparr>result = JStr (JSON_stringify (Number_toString rt) (JObj a)), source = Ai,
               response_model = m, timestamp = now_response clk\<rparr>\<rparr> \<and>
         cache_after (workflow rt e clk (Inr (Body req)) c) (cacheKey m p) =
           Some \<lparr>item_value = JStr (JSON_stringify (Number_toString rt) (JObj a)),
                 item_expiry = now_setCache clk + 3600000\<rparr>"
proof -
  have w: "workflow rt e clk (Inr (Body req)) c = cache_miss rt e clk p m t mt c1"
    using workflow_miss [OF assms(1,2,3,6)] assms(4,5) by simp
  have r: "extract_result rt a = JStr (JSON_stringify (Number_toString rt) (JObj a))"
    using assms(8) by (auto simp: extract_result_def simp del: JSON_stringify.simps)
  show ?thesis
    by (simp add: w cache_miss_success [OF assms(7)] r setCache_def del: JSON_stringify.simps)
qed

lemma ai_blank: "AI env_blank m ps = Inr answer_blank"
  by (simp add: env_blank_def)

lemma stringify_blank:
  "JSON_stringify nt (JObj answer_blank) =
     lit ''{'' @ [0x22] @ lit ''response'' @ [0x22] @ lit '':'' @ [0x22, 0x22] @ lit ''}''"
  by (simp add: answer_blank_def QuoteJSONString_def escape_unit_def is_lead_def is_trail_def
      lit_def)

text \<open>The model answers \<^verbatim>\<open>{response: ""}\<close>: the result is the text \<^verbatim>\<open>{"response":""}\<close>.\<close>

theorem falsy_response_is_serialised_witness:
  "map_of answer_blank (lit ''response'') = Some (JStr []) \<and> \<not> truthy (JStr []) \<and>
   response (workflow rt_ex env_blank clk_ex (Inr (Body req_ex)) Map.empty) =
     \<lparr>status = 200,
      body = WorkflowJson
        \<lparr>result = JStr (lit ''{'' @ [0x22] @ lit ''response'' @ [0x22] @ lit '':'' @
                          [0x22, 0x22] @ lit ''}''),
         source = Ai, response_model = lit ''m1'', timestamp = 1003\<rparr>\<rparr> \<and>
   cache_after (workflow rt_ex env_blank clk_ex (Inr (Body req_ex)) Map.empty)
       (cacheKey (lit ''m1'') (lit ''Explain X'')) =
     Some \<lparr>item_value = JStr (lit ''{'' @ [0x22] @ lit ''response'' @ [0x22] @ lit '':'' @
                                 [0x22, 0x22] @ lit ''}''),
           item_expiry = 3601001\<rparr>"
proof -
  have b: "map_of answer_blank (lit ''response'') = Some (JStr [])"
    by (simp add: answer_blank_def)
  then have h: "map_of answer_blank (lit ''response'') = None \<or>
         (\<exists>v. map_of answer_blank (lit ''response'') = Some v \<and> \<not> truthy v)"
    by simp
  note th = falsy_response_is_serialised [where c = Map.empty and rt = rt_ex and e = env_blank and clk = clk_ex,
      OF ex_facts get_cold ai_blank h]
  have t: "now_response clk_ex = 1003" "now_setCache clk_ex + 3600000 = 3601001"
    by (simp_all add: clk_ex_def)
  from th b show ?thesis unfolding t stringify_blank by simp
qed

subsection \<open>The parameters of the model\<close>

text \<open>
  C10: when the gist identifier or the token is unset (or empty) and the cache does not
  answer, the gist is not fetched and the model is run once, with exactly the prompt, the
  temperature and the token limit of the request or their defaults.
\<close>

theorem unset_gist_skips_config:
  assumes "prompt req = Some p" and "p \<noteq> []"
    and "m = (case model req of None \<Rightarrow> lit ''@cf/meta/llama-2-7b-chat-int8'' | Some x \<Rightarrow> x)"
    and "t = (case temperature req of None \<Rightarrow> 0.7 | Some x \<Rightarrow> x)"
    and "mt = (case max_tokens req of None \<Rightarrow> 2048 | Some x \<Rightarrow> x)"
    and "getCached (now_getCached clk) (cacheKey m p) c = (None, c1)"
    and "GIST_ID e = None \<or> GIST_ID e = Some [] \<or> GITHUB_TOKEN e = None \<or>
         GITHUB_TOKEN e = Some []"
  shows "gist_calls (trace (workflow rt e clk (Inr (Body req)) c)) = [] \<and>
         ai_calls (trace (workflow rt e clk (Inr (Body req)) c)) =
           [(m, [lit ''prompt'' \<mapsto> JStr p, lit ''temperature'' \<mapsto> JNum t,
                 lit ''max_tokens'' \<mapsto> JNum mt])]"
proof -
  have w: "workflow rt e clk (Inr (Body req)) c = cache_miss rt e clk p m t mt c1"
    using workflow_miss [OF assms(1,2,3,6)] assms(4,5) by simp
  have l: "load_config rt e = (JObj [], [])"
    using assms(7) by (rule load_config_unset)
  show ?thesis
    by (simp add: w cache_miss_gist_calls cache_miss_ai_calls l merge_params_empty)
qed

text \<open>No gist identifier is bound: the model gets the request's temperature 0.2.\<close>

theorem unset_gist_skips_config_witness:
  "GIST_ID env_unbound = None \<and>
   gist_calls (trace (workflow rt_ex env_unbound clk_ex (Inr (Body req_ex)) Map.empty)) = [] \<and>
   ai_calls (trace (workflow rt_ex env_unbound clk_ex (Inr (Body req_ex)) Map.empty)) =
     [(lit ''m1'', [lit ''prompt'' \<mapsto> JStr (lit ''Explain X''), lit ''temperature'' \<mapsto> JNum 0.2,
                   lit ''max_tokens'' \<mapsto> JNum 2048])]"
proof -
  have u: "GIST_ID env_unbound = None" by (simp add: env_unbound_def)
  then have h: "GIST_ID env_unbound = None \<or> GIST_ID env_unbound = Some [] \<or>
      GITHUB_TOKEN env_unbound = None \<or> GITHUB_TOKEN env_unbound = Some []"
    by (rule disjI1)
  note th = unset_gist_skips_config [where c = Map.empty and rt = rt_ex and e = env_unbound and clk = clk_ex,
      OF ex_facts get_cold h]
  from th u show ?thesis by blast
qed

text \<open>
  C1, as amended: when the cache does not answer, the model is run once with the object
  \<^verbatim>\<open>{ prompt, temperature, max_tokens, ...config }\<close>. Field by field, a property of the
  loaded configuration (the last one of that name) is what the model gets; a field that
  the configuration lacks is the request's value for \<open>prompt\<close>, \<open>temperature\<close> and
  \<open>max_tokens\<close>, with the defaults 0.7 and 2048 where the request has none, and is absent
  otherwise. So the configuration takes precedence over the request, and the request over
  the defaults.
\<close>

theorem config_overrides_request_parameters:
  assumes "prompt req = Some p" and "p \<noteq> []"
    and "m = (case model req of None \<Rightarrow> lit ''@cf/meta/llama-2-7b-chat-int8'' | Some x \<Rightarrow> x)"
    and "t = (case temperature req of None \<Rightarrow> 0.7 | Some x \<Rightarrow> x)"
    and "mt = (case max_tokens req of None \<Rightarrow> 2048 | Some x \<Rightarrow> x)"
    and "getCached (now_getCached clk) (cacheKey m p) c = (None, c1)"
    and "config = fst (load_config rt e)"
  shows "ai_calls (trace (workflow rt e clk (Inr (Body req)) c)) = [(m, merge_params p t mt config)] \<and>
         (\<forall>k. merge_params p t mt config k =
            (case map_of (rev (own_props config)) k of
               Some v \<Rightarrow> Some v
             | None \<Rightarrow>
                 if k = lit ''prompt'' then Some (JStr p)
                 else if k = lit ''temperature'' then Some (JNum t)
                 else if k = lit ''max_tokens'' then Some (JNum mt)
                 else None))"
proof -
  have w: "workflow rt e clk (Inr (Body req)) c = cache_miss rt e clk p m t mt c1"
    using workflow_miss [OF assms(1,2,3,6)] assms(4,5) by simp
  have "ai_calls (trace (workflow rt e clk (Inr (Body req)) c)) = [(m, merge_params p t mt config)]"
    by (simp add: w cache_miss_ai_calls assms(7))
  moreover have "merge_params p t mt config k =
            (case map_of (rev (own_props config)) k of
               Some v \<Rightarrow> Some v
             | None \<Rightarrow>
                 if k = lit ''prompt'' then Some (JStr p)
                 else if k = lit ''temperature'' then Some (JNum t)
                 else if k = lit ''max_tokens'' then Some (JNum mt)
                 else None)" for k
    by (simp add: merge_params_lookup lit_def split: option.splits)
  ultimately show ?thesis by blast
qed

lemma config_ex_loaded: "fst (load_config rt_ex env_ex) = config_ex"
  by (simp add: load_config_ex)

text \<open>
  The gist holds the temperature 0.9 and the request asks for 0.2: the model gets 0.9, and
  the request's prompt and the default token limit, which the gist does not set.
\<close>

theorem config_overrides_request_parameters_witness:
  "temperature req_ex = Some 0.2 \<and> max_tokens req_ex = None \<and>
   own_props (fst (load_config rt_ex env_ex)) = [(lit ''temperature'', JNum 0.9)] \<and>
   merge_params (lit ''Explain X'') 0.2 2048 (fst (load_config rt_ex env_ex)) (lit ''temperature'') =
     Some (JNum 0.9) \<and>
   merge_params (lit ''Explain X'') 0.2 2048 (fst (load_config rt_ex env_ex)) (lit ''max_tokens'') =
     Some (JNum 2048) \<and>
   merge_params (lit ''Explain X'') 0.2 2048 (fst (load_config rt_ex env_ex)) (lit ''prompt'') =
     Some (JStr (lit ''Explain X''))"
proof -
  note th = config_overrides_request_parameters [where c = Map.empty and rt = rt_ex and e = env_ex and clk = clk_ex,
      OF ex_facts get_cold refl]
  have o: "own_props (fst (load_config rt_ex env_ex)) = [(lit ''temperature'', JNum 0.9)]"
    by (simp add: config_ex_loaded config_ex_def)
  from th have l: "merge_params (lit ''Explain X'') 0.2 2048 (fst (load_config rt_ex env_ex)) k =
            (case map_of (rev (own_props (fst (load_config rt_ex env_ex)))) k of
               Some v \<Rightarrow> Some v
             | None \<Rightarrow>
                 if k = lit ''prompt'' then Some (JStr (lit ''Explain X''))
                 else if k = lit ''temperature'' then Some (JNum 0.2)
                 else if k = lit ''max_tokens'' then Some (JNum 2048)
                 else None)" for k
    by blast
  have "temperature req_ex = Some 0.2" "max_tokens req_ex = None"
    by (simp_all add: req_ex_def)
  moreover note o
  moreover have "merge_params (lit ''Explain X'') 0.2 2048 (fst (load_config rt_ex env_ex))
      (lit ''temperature'') = Some (JNum 0.9)"
    unfolding l o by simp
  moreover have "merge_params (lit ''Explain X'') 0.2 2048 (fst (load_config rt_ex env_ex))
      (lit ''max_tokens'') = Some (JNum 2048)"
    unfolding l o by (simp add: lit_def)
  moreover have "merge_params (lit ''Explain X'') 0.2 2048 (fst (load_config rt_ex env_ex))
      (lit ''prompt'') = Some (JStr (lit ''Explain X''))"
    unfolding l o by (simp add: lit_def)
  ultimately show ?thesis by blast
qed

text \<open>
  The claim C1 as stated, that a temperature of the request overrides the one loaded from
  the configuration, fails: the request asks for 0.2, the gist holds 0.9, and the one
  run of the model gets 0.9.
\<close>

theorem request_temperature_overridden_counterexample:
  "temperature req_ex = Some 0.2 \<and>
   fst (load_config rt_ex env_ex) = JObj [(lit ''temperature'', JNum 0.9)] \<and>
   sent_param (trace (workflow rt_ex env_ex clk_ex (Inr (Body req_ex)) Map.empty)) (lit ''temperature'') =
     [Some (JNum 0.9)] \<and>
   sent_param (trace (workflow rt_ex env_ex clk_ex (Inr (Body req_ex)) Map.empty)) (lit ''temperature'') \<noteq>
     [Some (JNum 0.2)]"
proof -
  have s: "sent_param (trace (workflow rt_ex env_ex clk_ex (Inr (Body req_ex)) Map.empty))
             (lit ''temperature'') =
           [merge_params (lit ''Explain X'') 0.2 2048 config_ex (lit ''temperature'')]"
    by (simp add: sent_param_def workflow_cold cache_miss_ai_calls config_ex_loaded)
  have "merge_params (lit ''Explain X'') 0.2 2048 config_ex (lit ''temperature'') = Some (JNum 0.9)"
    by (simp add: merge_params_lookup config_ex_def)
  with s have "sent_param (trace (workflow rt_ex env_ex clk_ex (Inr (Body req_ex)) Map.empty))
                 (lit ''temperature'') = [Some (JNum 0.9)]"
    by simp
  moreover have "temperature req_ex = Some 0.2" by (simp add: req_ex_def)
  moreover have "fst (load_config rt_ex env_ex) = JObj [(lit ''temperature'', JNum 0.9)]"
    by (simp add: config_ex_loaded config_ex_def)
  ultimately show ?thesis by simp
qed

end
